theory Spec2Isabelle
  imports Complex_Main
begin

section \<open>Python strings\<close>

text \<open>
  \<^verbatim>\<open>sep.join(xs)\<close> of Python: the elements of \<open>xs\<close> with \<open>sep\<close> between each two
  neighbours, nothing before the first and nothing after the last.
\<close>

fun str_join :: "string \<Rightarrow> string list \<Rightarrow> string" where
  "str_join sep [] = []"
| "str_join sep [x] = x"
| "str_join sep (x # y # ys) = x @ sep @ str_join sep (y # ys)"

definition digit :: "nat \<Rightarrow> char" where
  "digit d = ''0123456789'' ! d"

fun str_nat :: "nat \<Rightarrow> string" where
  "str_nat n = (if n < 10 then [digit n] else str_nat (n div 10) @ [digit (n mod 10)])"

declare str_nat.simps [simp del]

text \<open>\<^verbatim>\<open>str(n)\<close> for a Python \<^verbatim>\<open>int\<close>: decimal digits, a minus sign when negative.\<close>

definition str_int :: "int \<Rightarrow> string" where
  "str_int i = (if i < 0 then CHR ''-'' # str_nat (nat (- i)) else str_nat (nat i))"

section \<open>The query builder \<^verbatim>\<open>ClickHouseQuery\<close>\<close>

text \<open>
  The fields set by \<^verbatim>\<open>__init__\<close>. Columns, conditions and the table are strings, the
  limit is an \<^verbatim>\<open>int\<close>; \<^verbatim>\<open>None\<close> is \<open>None\<close>.
\<close>

record ClickHouseQuery =
  select_cols :: "string list"
  from_table :: "string option"
  where_conditions :: "string list"
  group_cols :: "string list"
  order_cols :: "string list"
  limit_count :: "int option"
  desc :: bool

definition init :: ClickHouseQuery where
  "init = \<lparr>select_cols = [], from_table = None, where_conditions = [], group_cols = [],
            order_cols = [], limit_count = None, desc = False\<rparr>"

text \<open>Each mutator updates the builder and returns it (\<^verbatim>\<open>return self\<close>).\<close>

definition select :: "string list \<Rightarrow> ClickHouseQuery \<Rightarrow> ClickHouseQuery" where
  "select cols self = self\<lparr>select_cols := select_cols self @ cols\<rparr>"

definition from_q :: "string \<Rightarrow> ClickHouseQuery \<Rightarrow> ClickHouseQuery" where
  "from_q table self = self\<lparr>from_table := Some table\<rparr>"

definition where_q :: "string list \<Rightarrow> ClickHouseQuery \<Rightarrow> ClickHouseQuery" where
  "where_q conditions self = self\<lparr>where_conditions := where_conditions self @ conditions\<rparr>"

definition group_by :: "string list \<Rightarrow> ClickHouseQuery \<Rightarrow> ClickHouseQuery" where
  "group_by cols self = self\<lparr>group_cols := group_cols self @ cols\<rparr>"

definition order_by :: "string list \<Rightarrow> bool \<Rightarrow> ClickHouseQuery \<Rightarrow> ClickHouseQuery" where
  "order_by cols d self = self\<lparr>order_cols := order_cols self @ cols, desc := d\<rparr>"

definition limit :: "int \<Rightarrow> ClickHouseQuery \<Rightarrow> ClickHouseQuery" where
  "limit n self = self\<lparr>limit_count := Some n\<rparr>"

text \<open>
  \<^verbatim>\<open>build\<close> with the builder passed through: the result is the rendered string and
  the builder as the call leaves it. \<open>parts\<close> is the local list of the source, grown by
  one \<^verbatim>\<open>append\<close> per clause; the tests are Python's truth tests (a list is true when
  non-empty, a string when non-empty, an \<^verbatim>\<open>int\<close> when non-zero, \<^verbatim>\<open>None\<close> never).
\<close>

definition build :: "ClickHouseQuery \<Rightarrow> string \<times> ClickHouseQuery" where
  "build self =
    (let parts = [];
         parts = (if select_cols self \<noteq> []
                  then parts @ [''SELECT '' @ str_join '', '' (select_cols self)]
                  else parts @ [''SELECT *'']);
         parts = (case from_table self of
                    Some t \<Rightarrow> if t \<noteq> [] then parts @ [''FROM '' @ t] else parts
                  | None \<Rightarrow> parts);
         parts = (if where_conditions self \<noteq> []
                  then parts @ [''WHERE '' @ str_join '' AND '' (where_conditions self)]
                  else parts);
         parts = (if group_cols self \<noteq> []
                  then parts @ [''GROUP BY '' @ str_join '', '' (group_cols self)]
                  else parts);
         parts = (if order_cols self \<noteq> []
                  then (let order_str = str_join '', '' (order_cols self);
                            order_str = (if desc self then order_str @ '' DESC'' else order_str)
                        in parts @ [''ORDER BY '' @ order_str])
                  else parts);
         parts = (case limit_count self of
                    Some n \<Rightarrow> if n \<noteq> 0 then parts @ [''LIMIT '' @ str_int n] else parts
                  | None \<Rightarrow> parts)
     in (str_join '' '' parts, self))"

subsection \<open>The rendering as the specification words it\<close>

text \<open>
  One optional clause per keyword, \<open>None\<close> when the clause is left out. The rendering
  of the specification keeps the clauses that are there, in the order SELECT, FROM, WHERE,
  GROUP BY, ORDER BY, LIMIT, and joins them with one space.
\<close>

fun present :: "'a option list \<Rightarrow> 'a list" where
  "present [] = []"
| "present (None # cs) = present cs"
| "present (Some c # cs) = c # present cs"

definition select_clause :: "ClickHouseQuery \<Rightarrow> string option" where
  "select_clause q =
     Some (if select_cols q = [] then ''SELECT *''
           else ''SELECT '' @ str_join '', '' (select_cols q))"

definition from_clause :: "ClickHouseQuery \<Rightarrow> string option" where
  "from_clause q =
     (case from_table q of
        None \<Rightarrow> None
      | Some t \<Rightarrow> if t = [] then None else Some (''FROM '' @ t))"

definition where_clause :: "ClickHouseQuery \<Rightarrow> string option" where
  "where_clause q =
     (if where_conditions q = [] then None
      else Some (''WHERE '' @ str_join '' AND '' (where_conditions q)))"

definition group_by_clause :: "ClickHouseQuery \<Rightarrow> string option" where
  "group_by_clause q =
     (if group_cols q = [] then None
      else Some (''GROUP BY '' @ str_join '', '' (group_cols q)))"

definition order_by_rendering :: "string list \<Rightarrow> bool \<Rightarrow> string option" where
  "order_by_rendering cols d =
     (if cols = [] then None
      else Some (''ORDER BY '' @ str_join '', '' cols @ (if d then '' DESC'' else [])))"

definition order_by_clause :: "ClickHouseQuery \<Rightarrow> string option" where
  "order_by_clause q = order_by_rendering (order_cols q) (desc q)"

definition limit_clause :: "ClickHouseQuery \<Rightarrow> string option" where
  "limit_clause q =
     (case limit_count q of
        None \<Rightarrow> None
      | Some n \<Rightarrow> if n = 0 then None else Some (''LIMIT '' @ str_int n))"

text \<open>The strings a caller has handed to the builder.\<close>

definition fragments :: "ClickHouseQuery \<Rightarrow> string set" where
  "fragments q =
     set (select_cols q) \<union> set_option (from_table q) \<union> set (where_conditions q)
     \<union> set (group_cols q) \<union> set (order_cols q)"

subsection \<open>Sequences of calls on one builder\<close>

datatype call =
    Select "string list"
  | From string
  | Where "string list"
  | GroupBy "string list"
  | OrderBy "string list" bool
  | Limit int
  | Build

fun apply_call :: "call \<Rightarrow> ClickHouseQuery \<Rightarrow> ClickHouseQuery" where
  "apply_call (Select cols) q = select cols q"
| "apply_call (From t) q = from_q t q"
| "apply_call (Where conds) q = where_q conds q"
| "apply_call (GroupBy cols) q = group_by cols q"
| "apply_call (OrderBy cols d) q = order_by cols d q"
| "apply_call (Limit n) q = limit n q"
| "apply_call Build q = snd (build q)"

fun run :: "call list \<Rightarrow> ClickHouseQuery \<Rightarrow> ClickHouseQuery" where
  "run [] q = q"
| "run (c # cs) q = run cs (apply_call c q)"

text \<open>
  The columns of all \<^verbatim>\<open>order_by\<close> calls of a sequence, in call order, and the flag of
  the last such call (\<open>d0\<close> when there is none).
\<close>

fun order_args :: "call list \<Rightarrow> string list" where
  "order_args [] = []"
| "order_args (OrderBy cols d # cs) = cols @ order_args cs"
| "order_args (c # cs) = order_args cs"

fun last_flag :: "call list \<Rightarrow> bool \<Rightarrow> bool" where
  "last_flag [] d0 = d0"
| "last_flag (OrderBy cols d # cs) d0 = last_flag cs d"
| "last_flag (c # cs) d0 = last_flag cs d0"

subsection \<open>Sample builders\<close>

definition grouped :: ClickHouseQuery where
  "grouped = group_by [''a''] (from_q ''t'' init)"

definition from_t :: ClickHouseQuery where
  "from_t = from_q ''t'' init"

definition asc_then_desc :: "call list" where
  "asc_then_desc = [OrderBy [''a''] False, From ''t'', OrderBy [''b''] True]"

definition desc_then_asc :: "call list" where
  "desc_then_asc = [OrderBy [''a''] True, From ''t'', OrderBy [''b''] False]"

definition builds_between :: "call list" where
  "builds_between = [Select [''a''], Build, From ''t'', Build, Build]"

section \<open>Python values, dictionaries and exceptions\<close>

text \<open>
  The values a row holds: \<^verbatim>\<open>None\<close>, \<^verbatim>\<open>bool\<close>, \<^verbatim>\<open>int\<close> and \<^verbatim>\<open>str\<close>, as JSON decoding
  gives them for \<^verbatim>\<open>null\<close>, booleans, integers and strings. JSON reals and nested arrays
  or objects inside a row are not part of this model.
\<close>

datatype pyval = PNone | PBool bool | PInt int | PStr string

definition py_str :: "pyval \<Rightarrow> string" where
  "py_str v =
     (case v of
        PNone \<Rightarrow> ''None''
      | PBool b \<Rightarrow> (if b then ''True'' else ''False'')
      | PInt i \<Rightarrow> str_int i
      | PStr s \<Rightarrow> s)"

text \<open>
  A \<^verbatim>\<open>dict\<close> with string keys is the list of its items in insertion order; the keys of
  a Python dictionary are distinct. \<^verbatim>\<open>d.get(k, default)\<close> and \<^verbatim>\<open>list(d.keys())\<close>:
\<close>

type_synonym row = "(string \<times> pyval) list"

definition dict_keys :: "(string \<times> 'v) list \<Rightarrow> string list" where
  "dict_keys d = map fst d"

definition dict_get :: "(string \<times> 'v) list \<Rightarrow> string \<Rightarrow> 'v \<Rightarrow> 'v" where
  "dict_get d k dflt = (case map_of d k of None \<Rightarrow> dflt | Some v \<Rightarrow> v)"

text \<open>\<^verbatim>\<open>d[k] = v\<close>: a present key keeps its place, a new one goes last.\<close>

fun dict_set :: "(string \<times> 'v) list \<Rightarrow> string \<Rightarrow> 'v \<Rightarrow> (string \<times> 'v) list" where
  "dict_set [] k v = [(k, v)]"
| "dict_set ((k', v') # d) k v = (if k' = k then (k, v) # d else (k', v') # dict_set d k v)"

text \<open>
  The exceptions that reach the client, all of class \<^verbatim>\<open>Exception\<close>, with the text
  \<^verbatim>\<open>str(e)\<close> gives. \<^verbatim>\<open>HTTPError\<close> is a subclass of \<^verbatim>\<open>URLError\<close>. \<^verbatim>\<open>TimeoutError\<close>
  and \<^verbatim>\<open>http.client.RemoteDisconnected\<close> are subclasses of \<^verbatim>\<open>OSError\<close>, and
  \<^verbatim>\<open>json.JSONDecodeError\<close> of \<^verbatim>\<open>ValueError\<close>; none of them is a \<^verbatim>\<open>URLError\<close>.
  \<open>Exception\<close> is the plain \<^verbatim>\<open>Exception(message)\<close> the client raises itself.
  \<^verbatim>\<open>KeyboardInterrupt\<close> and \<^verbatim>\<open>SystemExit\<close>, which are not of class \<^verbatim>\<open>Exception\<close>, are
  outside the model.
\<close>

datatype exc =
    URLError string
  | HTTPError int string
  | JSONDecodeError string
  | OSError string
  | TimeoutError string
  | RemoteDisconnected string
  | ValueError string
  | TypeError string
  | OverflowError string
  | Exception string

fun is_URLError :: "exc \<Rightarrow> bool" where
  "is_URLError (URLError reason) = True"
| "is_URLError (HTTPError code msg) = True"
| "is_URLError e = False"

fun str_exc :: "exc \<Rightarrow> string" where
  "str_exc (URLError reason) = ''<urlopen error '' @ reason @ ''>''"
| "str_exc (HTTPError code msg) = ''HTTP Error '' @ str_int code @ '': '' @ msg"
| "str_exc (JSONDecodeError msg) = msg"
| "str_exc (OSError msg) = msg"
| "str_exc (TimeoutError msg) = msg"
| "str_exc (RemoteDisconnected msg) = msg"
| "str_exc (ValueError msg) = msg"
| "str_exc (TypeError msg) = msg"
| "str_exc (OverflowError msg) = msg"
| "str_exc (Exception msg) = msg"

section \<open>The connection and the HTTP request\<close>

record ClickHouseConnection =
  host :: string
  port :: int
  database :: string
  user :: string
  password :: string

definition base_url :: "ClickHouseConnection \<Rightarrow> string" where
  "base_url self = ''http://'' @ host self @ '':'' @ str_int (port self)"

record ClickHouseClient =
  conn :: ClickHouseConnection

text \<open>
  A \<^verbatim>\<open>urllib.request.Request\<close>. \<^verbatim>\<open>add_header\<close> stores the value under the
  capitalised name (\<^verbatim>\<open>key.capitalize()\<close>: first letter upper case, the others lower
  case), so \<^verbatim>\<open>X-ClickHouse-Query\<close> is kept, looked up and sent as
  \<^verbatim>\<open>X-clickhouse-query\<close>; HTTP header names do not distinguish letter case.
\<close>

record request =
  url :: string
  data :: string
  http_method :: string
  headers :: "(string \<times> string) list"

definition upper :: "char \<Rightarrow> char" where
  "upper c = (let n = of_char c :: nat in if 97 \<le> n \<and> n \<le> 122 then char_of (n - 32) else c)"

definition lower :: "char \<Rightarrow> char" where
  "lower c = (let n = of_char c :: nat in if 65 \<le> n \<and> n \<le> 90 then char_of (n + 32) else c)"

fun capitalize :: "string \<Rightarrow> string" where
  "capitalize [] = []"
| "capitalize (c # cs) = upper c # map lower cs"

definition add_header :: "string \<Rightarrow> string \<Rightarrow> request \<Rightarrow> request" where
  "add_header key val req = req\<lparr>headers := dict_set (headers req) (capitalize key) val\<rparr>"

definition get_header :: "request \<Rightarrow> string \<Rightarrow> string option" where
  "get_header req key = map_of (headers req) (capitalize key)"

section \<open>The world outside the client\<close>

text \<open>
  What happens to a request on the network, as \<^verbatim>\<open>urllib\<close> meets it:
  \<^item> \<open>SendFails err\<close>: connecting or sending the request raises the \<^verbatim>\<open>OSError\<close> with
    the text \<open>err\<close> (the connection is refused, the connection attempt times out, the
    host name is unknown);
  \<^item> \<open>ErrorStatus code msg\<close>: the server answers with a 4xx or 5xx status;
  \<^item> \<open>ReplyFails x\<close>: the request is sent, and waiting for the reply or reading and
    decoding its body raises \<open>x\<close> (no reply within the timeout, the connection dropped);
  \<^item> \<open>Replies body\<close>: the server answers with a 2xx status and this body.
\<close>

datatype outcome =
    SendFails string
  | ErrorStatus int string
  | ReplyFails exc
  | Replies string

text \<open>
  What the library calls do is a parameter of the model:
  \<^item> \<open>network req\<close> is what happens to the request \<open>req\<close>;
  \<^item> \<open>json_loads s\<close> is \<^verbatim>\<open>json.loads(s)\<close>: the decoded object, its members being lists
    of rows, or the exception raised;
  \<^item> \<open>open_w path\<close> is \<^verbatim>\<open>open(path, "w")\<close>: \<open>None\<close> when the file is opened (and so
    created or truncated), the exception otherwise;
  \<^item> \<open>wrong_fields_text ks\<close> is \<^verbatim>\<open>", ".join([repr(x) for x in wrong_fields])\<close> for the
    set \<^verbatim>\<open>wrong_fields\<close> of the keys \<open>ks\<close>: their \<^verbatim>\<open>repr\<close>, in the order in which the set
    yields them.
  What the client does to the outside is recorded in the \<open>world\<close>: the requests handed
  to \<^verbatim>\<open>urlopen\<close>, in order, and the contents of the files written.
\<close>

type_synonym document = "(string \<times> row list) list"

record env =
  network :: "request \<Rightarrow> outcome"
  json_loads :: "string \<Rightarrow> exc + document"
  open_w :: "string \<Rightarrow> exc option"
  wrong_fields_text :: "string list \<Rightarrow> string"

text \<open>
  \<^verbatim>\<open>urlopen(req, timeout=30)\<close> followed by \<^verbatim>\<open>response.read()\<close> (and \<^verbatim>\<open>.decode()\<close>): the
  text of the response body, or the exception raised. \<^verbatim>\<open>urllib\<close> turns an \<^verbatim>\<open>OSError\<close>
  of connecting or sending into \<^verbatim>\<open>URLError\<close> and a 4xx or 5xx status into
  \<^verbatim>\<open>HTTPError\<close>; an exception raised after the request was sent comes out as it is.
\<close>

definition urlopen :: "env \<Rightarrow> request \<Rightarrow> exc + string" where
  "urlopen e req =
     (case network e req of
        SendFails err \<Rightarrow> Inl (URLError err)
      | ErrorStatus code msg \<Rightarrow> Inl (HTTPError code msg)
      | ReplyFails x \<Rightarrow> Inl x
      | Replies body \<Rightarrow> Inr body)"

record world =
  requests :: "request list"
  files :: "string \<Rightarrow> string option"

section \<open>The client \<^verbatim>\<open>ClickHouseClient\<close>\<close>

subsection \<open>\<^verbatim>\<open>query\<close>\<close>

definition query_request :: "ClickHouseClient \<Rightarrow> string \<Rightarrow> string \<Rightarrow> request" where
  "query_request self sql format =
    (let url = base_url (conn self) @ ''/?database='' @ database (conn self)
                 @ ''&format='' @ format;
         url = (if user (conn self) \<noteq> [] then url @ ''&user='' @ user (conn self) else url);
         url = (if password (conn self) \<noteq> []
                then url @ ''&password='' @ password (conn self) else url);
         req = \<lparr>url = url, data = sql, http_method = ''POST'', headers = []\<rparr>
     in add_header ''Content-Type'' ''text/plain'' req)"

text \<open>
  \<^verbatim>\<open>except urllib.error.URLError as e: raise Exception(f"ClickHouse query failed: {e}")\<close>:
  the handler takes exceptions of class \<^verbatim>\<open>URLError\<close>; any other leaves the \<^verbatim>\<open>try\<close> as
  it is.
\<close>

definition query_except :: "exc \<Rightarrow> exc" where
  "query_except e =
     (if is_URLError e then Exception (''ClickHouse query failed: '' @ str_exc e) else e)"

definition query ::
  "env \<Rightarrow> ClickHouseClient \<Rightarrow> string \<Rightarrow> string \<Rightarrow> world \<Rightarrow> (exc + row list) \<times> world" where
  "query e self sql format w =
    (let req = query_request self sql format;
         w' = w\<lparr>requests := requests w @ [req]\<rparr>
     in case urlopen e req of
          Inl x \<Rightarrow> (Inl (query_except x), w')
        | Inr body \<Rightarrow>
            (case json_loads e body of
               Inl x \<Rightarrow> (Inl (query_except x), w')
             | Inr result \<Rightarrow> (Inr (dict_get result ''data'' []), w')))"

subsection \<open>\<^verbatim>\<open>insert\<close>\<close>

definition tab :: string where
  "tab = [CHR 0x09]"

definition newline :: string where
  "newline = [CHR 0x0A]"

definition insert_request :: "ClickHouseClient \<Rightarrow> string \<Rightarrow> row \<Rightarrow> row list \<Rightarrow> request" where
  "insert_request self table row0 rws =
    (let columns = dict_keys row0;
         vals = map (\<lambda>row. map (\<lambda>col. py_str (dict_get row col (PStr []))) columns) rws;
         columns_str = str_join '', '' columns;
         values_lines = map (\<lambda>row. str_join tab row) vals;
         insert_data = str_join newline values_lines;
         sql = ''INSERT INTO '' @ table @ '' ('' @ columns_str @ '') FORMAT TabSeparated'';
         url = base_url (conn self) @ ''/?database='' @ database (conn self);
         url = (if user (conn self) \<noteq> [] then url @ ''&user='' @ user (conn self) else url);
         url = (if password (conn self) \<noteq> []
                then url @ ''&password='' @ password (conn self) else url);
         req = \<lparr>url = url, data = insert_data, http_method = ''POST'', headers = []\<rparr>;
         req = add_header ''Content-Type'' ''text/plain'' req
     in add_header ''X-ClickHouse-Query'' sql req)"

definition insert_except :: "exc \<Rightarrow> exc" where
  "insert_except e =
     (if is_URLError e then Exception (''ClickHouse insert failed: '' @ str_exc e) else e)"

definition insert ::
  "env \<Rightarrow> ClickHouseClient \<Rightarrow> string \<Rightarrow> row list \<Rightarrow> world \<Rightarrow> (exc + bool) \<times> world" where
  "insert e self table rws w =
    (case rws of
       [] \<Rightarrow> (Inr True, w)
     | row0 # _ \<Rightarrow>
         (let req = insert_request self table row0 rws;
              w' = w\<lparr>requests := requests w @ [req]\<rparr>
          in case urlopen e req of
               Inl x \<Rightarrow> (Inl (insert_except x), w')
             | Inr body \<Rightarrow> (Inr True, w')))"

text \<open>The body and the statement of \<^verbatim>\<open>insert\<close> as the specification words them.\<close>

definition tsv_value :: "row \<Rightarrow> string \<Rightarrow> string" where
  "tsv_value r column = (case map_of r column of None \<Rightarrow> [] | Some v \<Rightarrow> py_str v)"

definition tsv_body :: "string list \<Rightarrow> row list \<Rightarrow> string" where
  "tsv_body columns rws =
     str_join newline (map (\<lambda>r. str_join tab (map (tsv_value r) columns)) rws)"

definition insert_statement :: "string \<Rightarrow> string list \<Rightarrow> string" where
  "insert_statement table columns =
     ''INSERT INTO '' @ table @ '' ('' @ str_join '', '' columns @ '') FORMAT TabSeparated''"

text \<open>A row cut down to the given keys.\<close>

definition restrict_row :: "string list \<Rightarrow> row \<Rightarrow> row" where
  "restrict_row columns r = filter (\<lambda>(k, v). k \<in> set columns) r"

subsection \<open>\<^verbatim>\<open>create_table\<close>\<close>

definition create_table_sql :: "string \<Rightarrow> string \<Rightarrow> string \<Rightarrow> string \<Rightarrow> string" where
  "create_table_sql name schema engine order_by_expr =
     newline @ ''        CREATE TABLE IF NOT EXISTS '' @ name @ '' ('' @
     newline @ ''            '' @ schema @
     newline @ ''        )'' @
     newline @ ''        ENGINE = '' @ engine @
     newline @ ''        ORDER BY '' @ order_by_expr @
     newline @ ''        ''"

text \<open>
  \<^verbatim>\<open>try: self.query(sql); return True\<close> and \<^verbatim>\<open>except Exception: return False\<close>: the
  handler takes every exception of the model.
\<close>

definition create_table ::
  "env \<Rightarrow> ClickHouseClient \<Rightarrow> string \<Rightarrow> string \<Rightarrow> string \<Rightarrow> string \<Rightarrow> world
     \<Rightarrow> (exc + bool) \<times> world" where
  "create_table e self name schema engine order_by_expr w =
    (let sql = create_table_sql name schema engine order_by_expr
     in case query e self sql ''JSON'' w of
          (Inr results, w') \<Rightarrow> (Inr True, w')
        | (Inl x, w') \<Rightarrow> (Inr False, w'))"

subsection \<open>\<^verbatim>\<open>table_stats\<close>\<close>

text \<open>
  A number of the result: an \<^verbatim>\<open>int\<close>, or a \<^verbatim>\<open>float\<close> given by the rational it stands
  for.
\<close>

datatype number = NInt int | NFloat rat

record stats =
  rows :: pyval
  compressed_size_mb :: number
  uncompressed_size_mb :: number

definition zero_stats :: stats where
  "zero_stats = \<lparr>rows = PInt 0, compressed_size_mb = NInt 0, uncompressed_size_mb = NInt 0\<rparr>"

text \<open>
  \<^verbatim>\<open>i / (1024 * 1024)\<close> for an \<^verbatim>\<open>int\<close> \<open>i\<close>: the float nearest to the quotient. A float
  has 53 significant bits and the divisor is a power of two, so the float is the
  magnitude of the numerator rounded to 53 significant bits (ties to the even neighbour) over \<open>2^20\<close>;
  \<^verbatim>\<open>OverflowError\<close> is raised when that is \<open>2^1024\<close> or more.
\<close>

function bit_length :: "int \<Rightarrow> nat" where
  "bit_length n = (if n \<le> 0 then 0 else Suc (bit_length (n div 2)))"
  by pat_completeness auto
termination
  by (relation "measure nat") auto

declare bit_length.simps [simp del]

definition round_to_53_bits :: "int \<Rightarrow> int" where
  "round_to_53_bits n =
     (let k = bit_length n - 53;
          q = n div 2 ^ k;
          r = n mod 2 ^ k;
          q' = (if 2 ^ k < 2 * r \<or> (2 * r = 2 ^ k \<and> odd q) then q + 1 else q)
      in q' * 2 ^ k)"

definition int_truediv_MiB :: "int \<Rightarrow> exc + number" where
  "int_truediv_MiB i =
     (let m = round_to_53_bits \<bar>i\<bar>
      in if 2 ^ 1044 \<le> m
         then Inl (OverflowError ''integer division result too large for a float'')
         else Inr (NFloat (of_int (sgn i * m) / of_int (1024 * 1024))))"

text \<open>\<^verbatim>\<open>v / (1024 * 1024)\<close> for a value of a row; \<^verbatim>\<open>bool\<close> is a subclass of \<^verbatim>\<open>int\<close>.\<close>

definition truediv_MiB :: "pyval \<Rightarrow> exc + number" where
  "truediv_MiB v =
     (case v of
        PInt i \<Rightarrow> int_truediv_MiB i
      | PBool b \<Rightarrow> int_truediv_MiB (if b then 1 else 0)
      | PStr s \<Rightarrow>
          Inl (TypeError (''unsupported operand type(s) for /: '' @ [CHR 0x27] @ ''str''
                          @ [CHR 0x27] @ '' and '' @ [CHR 0x27] @ ''int'' @ [CHR 0x27]))
      | PNone \<Rightarrow>
          Inl (TypeError (''unsupported operand type(s) for /: '' @ [CHR 0x27] @ ''NoneType''
                          @ [CHR 0x27] @ '' and '' @ [CHR 0x27] @ ''int'' @ [CHR 0x27])))"

definition table_stats_sql :: "string \<Rightarrow> string" where
  "table_stats_sql name =
     newline @ ''        SELECT'' @
     newline @ ''            rows,'' @
     newline @ ''            bytes_on_disk as compressed_size,'' @
     newline @ ''            bytes_uncompressed as uncompressed_size'' @
     newline @ ''        FROM system.tables'' @
     newline @ ''        WHERE name = '' @ [CHR 0x27] @ name @ [CHR 0x27] @
     newline @ ''        ''"

text \<open>
  The body of the \<^verbatim>\<open>try\<close>: the query, then for a non-empty result the dictionary built
  from its first row, whose entries are evaluated in the order written.
\<close>

definition table_stats_try ::
  "env \<Rightarrow> ClickHouseClient \<Rightarrow> string \<Rightarrow> world \<Rightarrow> (exc + stats) \<times> world" where
  "table_stats_try e self name w =
    (let sql = table_stats_sql name
     in case query e self sql ''JSON'' w of
          (Inl x, w') \<Rightarrow> (Inl x, w')
        | (Inr results, w') \<Rightarrow>
            (case results of
               [] \<Rightarrow> (Inr zero_stats, w')
             | row # _ \<Rightarrow>
                 (let r = dict_get row ''rows'' (PInt 0)
                  in case truediv_MiB (dict_get row ''compressed_size'' (PInt 0)) of
                       Inl x \<Rightarrow> (Inl x, w')
                     | Inr c \<Rightarrow>
                         (case truediv_MiB (dict_get row ''uncompressed_size'' (PInt 0)) of
                            Inl x \<Rightarrow> (Inl x, w')
                          | Inr u \<Rightarrow>
                              (Inr \<lparr>rows = r, compressed_size_mb = c,
                                    uncompressed_size_mb = u\<rparr>, w')))))"

text \<open>\<^verbatim>\<open>except Exception:\<close> returns the zeroed record.\<close>

definition table_stats ::
  "env \<Rightarrow> ClickHouseClient \<Rightarrow> string \<Rightarrow> world \<Rightarrow> (exc + stats) \<times> world" where
  "table_stats e self name w =
    (case table_stats_try e self name w of
       (Inr s, w') \<Rightarrow> (Inr s, w')
     | (Inl x, w') \<Rightarrow> (Inr zero_stats, w'))"

subsection \<open>\<^verbatim>\<open>export_csv\<close>\<close>

text \<open>
  \<^verbatim>\<open>csv.writer\<close> with the default dialect: a field is \<^verbatim>\<open>""\<close> for \<^verbatim>\<open>None\<close>, the string
  itself for a \<^verbatim>\<open>str\<close> and \<^verbatim>\<open>str(v)\<close> otherwise; it is put in double quotes, its own
  double quotes doubled, when it holds a comma, a double quote, a carriage return or a
  line feed; fields are joined by commas and the record ends with CR LF. A record of one
  empty field is written as two double quotes.
\<close>

definition dquote :: char where
  "dquote = CHR 0x22"

definition crlf :: string where
  "crlf = [CHR 0x0D, CHR 0x0A]"

definition csv_text :: "pyval \<Rightarrow> string" where
  "csv_text v = (case v of PNone \<Rightarrow> [] | PStr s \<Rightarrow> s | _ \<Rightarrow> py_str v)"

definition csv_special :: "char \<Rightarrow> bool" where
  "csv_special c = (c = CHR '','' \<or> c = dquote \<or> c = CHR 0x0D \<or> c = CHR 0x0A)"

definition csv_field :: "string \<Rightarrow> string" where
  "csv_field s =
     (if list_ex csv_special s
      then [dquote] @ concat (map (\<lambda>c. if c = dquote then [dquote, dquote] else [c]) s)
           @ [dquote]
      else s)"

definition csv_writerow :: "pyval list \<Rightarrow> string" where
  "csv_writerow vs =
     (let fields = map csv_text vs
      in (if fields = [[]] then [dquote, dquote] else str_join '','' (map csv_field fields))
         @ crlf)"

text \<open>
  \<^verbatim>\<open>csv.DictWriter\<close> with \<^verbatim>\<open>extrasaction="raise"\<close> and \<^verbatim>\<open>restval=""\<close>, its defaults:
  \<^verbatim>\<open>_dict_to_list\<close> raises \<^verbatim>\<open>ValueError\<close> for a row with a key that is not a field name.
  The message ends with the text for the offending keys, \<open>wrong_text\<close> of them.
\<close>

definition dict_to_list ::
  "(string list \<Rightarrow> string) \<Rightarrow> string list \<Rightarrow> row \<Rightarrow> exc + pyval list" where
  "dict_to_list wrong_text fieldnames rowdict =
     (let wrong_fields = filter (\<lambda>k. k \<notin> set fieldnames) (dict_keys rowdict)
      in if wrong_fields \<noteq> []
         then Inl (ValueError (''dict contains fields not in fieldnames: ''
                               @ wrong_text wrong_fields))
         else Inr (map (\<lambda>key. dict_get rowdict key (PStr [])) fieldnames))"

definition writeheader :: "string list \<Rightarrow> string" where
  "writeheader fieldnames = csv_writerow (map PStr fieldnames)"

text \<open>
  \<^verbatim>\<open>writerows\<close>: the rows are converted and written one after the other, so a row
  that raises leaves the records before it in the file. \<open>written\<close> is the text in the
  file so far.
\<close>

fun writerows ::
  "(string list \<Rightarrow> string) \<Rightarrow> string list \<Rightarrow> row list \<Rightarrow> string
     \<Rightarrow> exc option \<times> string" where
  "writerows wrong_text fieldnames [] written = (None, written)"
| "writerows wrong_text fieldnames (r # rs) written =
     (case dict_to_list wrong_text fieldnames r of
        Inl x \<Rightarrow> (Some x, written)
      | Inr vs \<Rightarrow> writerows wrong_text fieldnames rs (written @ csv_writerow vs))"

definition export_csv_try ::
  "env \<Rightarrow> ClickHouseClient \<Rightarrow> string \<Rightarrow> string \<Rightarrow> world \<Rightarrow> (exc + bool) \<times> world" where
  "export_csv_try e self sql output_path w =
    (case query e self sql ''JSON'' w of
       (Inl x, w') \<Rightarrow> (Inl x, w')
     | (Inr results, w') \<Rightarrow>
         (case results of
            [] \<Rightarrow>
              (case open_w e output_path of
                 Some x \<Rightarrow> (Inl x, w')
               | None \<Rightarrow> (Inr True, w'\<lparr>files := (files w')(output_path \<mapsto> [])\<rparr>))
          | row0 # _ \<Rightarrow>
              (let columns = dict_keys row0
               in case open_w e output_path of
                    Some x \<Rightarrow> (Inl x, w')
                  | None \<Rightarrow>
                      (case writerows (wrong_fields_text e) columns results
                              (writeheader columns) of
                         (Some x, written) \<Rightarrow>
                           (Inl x, w'\<lparr>files := (files w')(output_path \<mapsto> written)\<rparr>)
                       | (None, written) \<Rightarrow>
                           (Inr True, w'\<lparr>files := (files w')(output_path \<mapsto> written)\<rparr>)))))"

text \<open>\<^verbatim>\<open>except Exception as e: raise Exception(f"Failed to export CSV: {e}")\<close>\<close>

definition export_csv ::
  "env \<Rightarrow> ClickHouseClient \<Rightarrow> string \<Rightarrow> string \<Rightarrow> world \<Rightarrow> (exc + bool) \<times> world" where
  "export_csv e self sql output_path w =
    (case export_csv_try e self sql output_path w of
       (Inr b, w') \<Rightarrow> (Inr b, w')
     | (Inl x, w') \<Rightarrow> (Inl (Exception (''Failed to export CSV: '' @ str_exc x)), w'))"

text \<open>The file of \<^verbatim>\<open>export_csv\<close> as the specification words it.\<close>

definition csv_record :: "string list \<Rightarrow> row \<Rightarrow> string" where
  "csv_record columns r = csv_writerow (map (\<lambda>k. dict_get r k (PStr [])) columns)"

definition csv_file :: "row list \<Rightarrow> string" where
  "csv_file results =
     (case results of
        [] \<Rightarrow> []
      | row0 # _ \<Rightarrow>
          csv_writerow (map PStr (dict_keys row0))
          @ concat (map (csv_record (dict_keys row0)) results))"

text \<open>
  The keys of the first row, and the condition that no row has a key outside them (a row
  may lack some).
\<close>

definition first_keys :: "row list \<Rightarrow> string list" where
  "first_keys results = (case results of [] \<Rightarrow> [] | row0 # _ \<Rightarrow> dict_keys row0)"

definition keys_within_first :: "row list \<Rightarrow> bool" where
  "keys_within_first results =
     list_all (\<lambda>r. list_all (\<lambda>k. k \<in> set (first_keys results)) (dict_keys r)) results"

section \<open>Sample clients, servers and rows\<close>

definition sample_client :: ClickHouseClient where
  "sample_client =
     \<lparr>conn = \<lparr>host = ''localhost'', port = 8123, database = ''default'', user = ''default'',
              password = []\<rparr>\<rparr>"

definition empty_world :: world where
  "empty_world = \<lparr>requests = [], files = Map.empty\<rparr>"

text \<open>\<^verbatim>\<open>json.loads\<close> on a text that holds no JSON value, such as the empty text.\<close>

definition not_json :: "string \<Rightarrow> exc + document" where
  "not_json s = Inl (JSONDecodeError ''Expecting value: line 1 column 1 (char 0)'')"

text \<open>
  The \<^verbatim>\<open>repr\<close> of keys made of letters only, which is the key in single quotes. The
  samples have at most one offending key, so there is one order.
\<close>

definition quoted_keys :: "string list \<Rightarrow> string" where
  "quoted_keys ks = str_join '', '' (map (\<lambda>k. [CHR 0x27] @ k @ [CHR 0x27]) ks)"

text \<open>
  A server that refuses the connection, one that is not reached within the timeout, and
  one that answers with status 500.
\<close>

definition refusing :: env where
  "refusing =
     \<lparr>network = (\<lambda>req. SendFails ''[Errno 111] Connection refused''),
      json_loads = not_json, open_w = (\<lambda>path. None), wrong_fields_text = quoted_keys\<rparr>"

definition unreachable :: env where
  "unreachable =
     \<lparr>network = (\<lambda>req. SendFails ''timed out''),
      json_loads = not_json, open_w = (\<lambda>path. None), wrong_fields_text = quoted_keys\<rparr>"

definition failing_500 :: env where
  "failing_500 =
     \<lparr>network = (\<lambda>req. ErrorStatus 500 ''Internal Server Error''),
      json_loads = not_json, open_w = (\<lambda>path. None), wrong_fields_text = quoted_keys\<rparr>"

text \<open>
  A server that takes the request and sends no reply within the timeout, and one that
  closes the connection without a reply.
\<close>

definition stalling :: env where
  "stalling =
     \<lparr>network = (\<lambda>req. ReplyFails (TimeoutError ''timed out'')),
      json_loads = not_json, open_w = (\<lambda>path. None), wrong_fields_text = quoted_keys\<rparr>"

definition dropping :: env where
  "dropping =
     \<lparr>network = (\<lambda>req. ReplyFails (RemoteDisconnected
                                     ''Remote end closed connection without response'')),
      json_loads = not_json, open_w = (\<lambda>path. None), wrong_fields_text = quoted_keys\<rparr>"

text \<open>
  A server that answers with status 200 and an empty body, as it does to a statement
  that returns no rows, such as a \<^verbatim>\<open>CREATE TABLE\<close> it has executed.
\<close>

definition empty_reply :: env where
  "empty_reply =
     \<lparr>network = (\<lambda>req. Replies []),
      json_loads = not_json, open_w = (\<lambda>path. None), wrong_fields_text = quoted_keys\<rparr>"

text \<open>
  A server that answers every request with the one body \<open>body\<close>, which decodes to an
  object whose member \<^verbatim>\<open>data\<close> is \<open>rws\<close>; every file can be opened.
\<close>

definition replying :: "string \<Rightarrow> row list \<Rightarrow> env" where
  "replying body rws =
     \<lparr>network = (\<lambda>req. Replies body),
      json_loads = (\<lambda>s. if s = body then Inr [(''data'', rws)] else not_json s),
      open_w = (\<lambda>path. None), wrong_fields_text = quoted_keys\<rparr>"

definition numeric_body :: string where
  \<open>numeric_body =
     ''{"data": [{"rows": 5, "compressed_size": 2097152, "uncompressed_size": 4194304}]}''\<close>

definition numeric_rows :: "row list" where
  "numeric_rows =
     [[(''rows'', PInt 5), (''compressed_size'', PInt 2097152),
       (''uncompressed_size'', PInt 4194304)]]"

text \<open>The same counts as the server writes them when it quotes 64-bit integers.\<close>

definition quoted_body :: string where
  \<open>quoted_body =
     ''{"data": [{"rows": "5", "compressed_size": "2097152", "uncompressed_size": "4194304"}]}''\<close>

definition quoted_rows :: "row list" where
  "quoted_rows =
     [[(''rows'', PStr ''5''), (''compressed_size'', PStr ''2097152''),
       (''uncompressed_size'', PStr ''4194304'')]]"

definition uniform_body :: string where
  \<open>uniform_body = ''{"data": [{"a": 1, "b": "x,y"}, {"b": null}]}''\<close>

definition uniform_rows :: "row list" where
  "uniform_rows = [[(''a'', PInt 1), (''b'', PStr ''x,y'')], [(''b'', PNone)]]"

definition ragged_body :: string where
  \<open>ragged_body = ''{"data": [{"a": 1}, {"a": 2, "b": 3}]}''\<close>

definition ragged_rows :: "row list" where
  "ragged_rows = [[(''a'', PInt 1)], [(''a'', PInt 2), (''b'', PInt 3)]]"

definition people :: "row list" where
  "people =
     [[(''id'', PInt 1), (''name'', PStr ''ann'')],
      [(''name'', PStr ''bob''), (''extra'', PBool True)]]"

section \<open>Properties of the query builder\<close>

lemma digit_in_digits: "d < 10 \<Longrightarrow> digit d \<in> set ''0123456789''"
  unfolding digit_def by (rule nth_mem) simp

lemma set_str_nat_gen:
  assumes D: "\<And>d. d < 10 \<Longrightarrow> digit d \<in> D"
  shows "set (str_nat n) \<subseteq> D"
proof (induction n rule: str_nat.induct)
  case (1 n)
  show ?case
  proof (cases "n < 10")
    case True
    have "str_nat n = [digit n]" using True by (subst str_nat.simps) simp
    then show ?thesis using D [OF True] by simp
  next
    case False
    have eq: "str_nat n = str_nat (n div 10) @ [digit (n mod 10)]"
      using False by (subst str_nat.simps) simp
    have "digit (n mod 10) \<in> D" by (rule D) simp
    moreover have "set (str_nat (n div 10)) \<subseteq> D" using 1 False by blast
    ultimately show ?thesis unfolding eq by simp
  qed
qed

lemma semicolon_not_digit: "d < 10 \<Longrightarrow> digit d \<noteq> CHR '';''"
  using digit_in_digits [of d] by auto

lemma str_nat_no_semicolon: "CHR '';'' \<notin> set (str_nat n)"
  using set_str_nat_gen [of "- {CHR '';''}" n] semicolon_not_digit by auto

lemma str_int_no_semicolon: "CHR '';'' \<notin> set (str_int i)"
  by (simp add: str_int_def str_nat_no_semicolon)

lemma str_join_avoids:
  "c \<notin> set sep \<Longrightarrow> \<forall>x \<in> set xs. c \<notin> set x \<Longrightarrow> c \<notin> set (str_join sep xs)"
  by (induction sep xs rule: str_join.induct) auto

lemma build_clauses:
  "fst (build q) =
     str_join '' '' (present [select_clause q, from_clause q, where_clause q,
                              group_by_clause q, order_by_clause q, limit_clause q])"
  by (simp add: build_def select_clause_def from_clause_def where_clause_def group_by_clause_def
       order_by_clause_def order_by_rendering_def limit_clause_def Let_def split: option.splits)

lemma build_state: "snd (build q) = q"
  by (simp add: build_def Let_def)

lemma select_clause_no_semicolon:
  "\<forall>s \<in> fragments q. CHR '';'' \<notin> set s \<Longrightarrow> select_clause q = Some c \<Longrightarrow> CHR '';'' \<notin> set c"
  using str_join_avoids [of "CHR '';''" "'', ''" "select_cols q"]
  by (auto simp: select_clause_def fragments_def split: if_splits)

lemma from_clause_no_semicolon:
  "\<forall>s \<in> fragments q. CHR '';'' \<notin> set s \<Longrightarrow> from_clause q = Some c \<Longrightarrow> CHR '';'' \<notin> set c"
  by (auto simp: from_clause_def fragments_def split: if_splits option.splits)

lemma where_clause_no_semicolon:
  "\<forall>s \<in> fragments q. CHR '';'' \<notin> set s \<Longrightarrow> where_clause q = Some c \<Longrightarrow> CHR '';'' \<notin> set c"
  using str_join_avoids [of "CHR '';''" "'' AND ''" "where_conditions q"]
  by (auto simp: where_clause_def fragments_def split: if_splits)

lemma group_by_clause_no_semicolon:
  "\<forall>s \<in> fragments q. CHR '';'' \<notin> set s \<Longrightarrow> group_by_clause q = Some c \<Longrightarrow> CHR '';'' \<notin> set c"
  using str_join_avoids [of "CHR '';''" "'', ''" "group_cols q"]
  by (auto simp: group_by_clause_def fragments_def split: if_splits)

lemma order_by_clause_no_semicolon:
  "\<forall>s \<in> fragments q. CHR '';'' \<notin> set s \<Longrightarrow> order_by_clause q = Some c \<Longrightarrow> CHR '';'' \<notin> set c"
  using str_join_avoids [of "CHR '';''" "'', ''" "order_cols q"]
  by (auto simp: order_by_clause_def order_by_rendering_def fragments_def split: if_splits)

lemma limit_clause_no_semicolon:
  "limit_clause q = Some c \<Longrightarrow> CHR '';'' \<notin> set c"
  using str_int_no_semicolon
  by (auto simp: limit_clause_def split: if_splits option.splits)

lemma set_present: "set (present cs) = {c. Some c \<in> set cs}"
  by (induction cs rule: present.induct) auto

lemma build_no_semicolon:
  assumes "\<forall>s \<in> fragments q. CHR '';'' \<notin> set s"
  shows "CHR '';'' \<notin> set (fst (build q))"
proof -
  have "\<forall>x \<in> set (present [select_clause q, from_clause q, where_clause q,
                              group_by_clause q, order_by_clause q, limit_clause q]).
          CHR '';'' \<notin> set x"
    unfolding set_present
    using select_clause_no_semicolon [OF assms] from_clause_no_semicolon [OF assms]
      where_clause_no_semicolon [OF assms] group_by_clause_no_semicolon [OF assms]
      order_by_clause_no_semicolon [OF assms] limit_clause_no_semicolon [of q]
    by auto
  then show ?thesis
    unfolding build_clauses by (intro str_join_avoids) simp_all
qed

lemma example_query:
  "fst (build (limit 10 (where_q [''a>1''] (from_q ''t'' (select [''a'', ''b''] init)))))
     = ''SELECT a, b FROM t WHERE a>1 LIMIT 10''"
  by (simp add: build_def limit_def where_q_def from_q_def select_def init_def str_int_def
        str_nat.simps digit_def)

lemma order_cols_run: "order_cols (run cs q) = order_cols q @ order_args cs"
proof (induction cs arbitrary: q)
  case Nil
  then show ?case by simp
next
  case (Cons c cs)
  then show ?case
    by (cases c)
      (simp_all add: select_def from_q_def where_q_def group_by_def order_by_def limit_def
         build_state)
qed

lemma desc_run: "desc (run cs q) = last_flag cs (desc q)"
proof (induction cs arbitrary: q)
  case Nil
  then show ?case by simp
next
  case (Cons c cs)
  then show ?case
    by (cases c)
      (simp_all add: select_def from_q_def where_q_def group_by_def order_by_def limit_def
         build_state)
qed

lemma run_without_build: "run (filter (\<lambda>c. c \<noteq> Build) cs) q = run cs q"
  by (induction cs arbitrary: q) (simp_all add: build_state)

lemma present_append: "present (xs @ ys) = present xs @ present ys"
  by (induction xs rule: present.induct) simp_all

text \<open>
  C1. For every builder state, \<^verbatim>\<open>build()\<close> returns the clauses that are present, joined
  by single spaces in the order SELECT, FROM, WHERE, GROUP BY, ORDER BY, LIMIT: the SELECT
  clause is \<^verbatim>\<open>SELECT *\<close> when no column was selected, WHERE conditions are joined with
  \<^verbatim>\<open> AND \<close>, column lists with a comma and a space, and a clause whose inputs are empty is
  left out. Nothing follows the last clause: a rendering has a semicolon only where a
  string handed to the builder has one, so none is appended. The builder with
  \<^verbatim>\<open>select("a","b")\<close>, \<^verbatim>\<open>from_("t")\<close>, \<^verbatim>\<open>where("a>1")\<close>, \<^verbatim>\<open>limit(10)\<close> renders
  \<^verbatim>\<open>SELECT a, b FROM t WHERE a>1 LIMIT 10\<close>.
\<close>

theorem build_renders_clauses_in_order:
  "fst (build q) =
     str_join '' '' (present [select_clause q, from_clause q, where_clause q,
                              group_by_clause q, order_by_clause q, limit_clause q])
   \<and> ((\<forall>s \<in> fragments q. CHR '';'' \<notin> set s) \<longrightarrow> CHR '';'' \<notin> set (fst (build q)))
   \<and> fst (build (limit 10 (where_q [''a>1''] (from_q ''t'' (select [''a'', ''b''] init)))))
       = ''SELECT a, b FROM t WHERE a>1 LIMIT 10''"
  using build_clauses [of q] build_no_semicolon [of q] example_query by blast

lemma grouped_fragments: "\<forall>s \<in> fragments grouped. CHR '';'' \<notin> set s"
  by (simp add: grouped_def group_by_def from_q_def init_def fragments_def)

lemma grouped_clauses:
  "present [select_clause grouped, from_clause grouped, where_clause grouped,
            group_by_clause grouped, order_by_clause grouped, limit_clause grouped]
     = [''SELECT *'', ''FROM t'', ''GROUP BY a'']"
  by (simp add: grouped_def group_by_def from_q_def init_def select_clause_def
        from_clause_def where_clause_def group_by_clause_def order_by_clause_def
        order_by_rendering_def limit_clause_def)

theorem build_renders_clauses_in_order_witness:
  "fst (build grouped) = ''SELECT * FROM t GROUP BY a''
   \<and> CHR '';'' \<notin> set (fst (build grouped))"
  using build_renders_clauses_in_order [of grouped] grouped_fragments
  by (simp add: grouped_clauses)

text \<open>
  C8. The \<^verbatim>\<open>desc\<close> flag of \<^verbatim>\<open>order_by\<close> belongs to the builder, not to a call. After
  \<^verbatim>\<open>order_by(cols, desc=d)\<close> on any builder the ORDER BY clause lists the columns of all
  calls and ends with \<^verbatim>\<open> DESC\<close> exactly when \<open>d\<close> holds, whatever flag the builder had.
  After any sequence of calls the rendering has, in the ORDER BY position, the columns of
  every \<^verbatim>\<open>order_by\<close> call with the flag of the last one.
\<close>

theorem order_by_desc_last_call_wins:
  "order_by_clause (order_by cols d q) = order_by_rendering (order_cols q @ cols) d
   \<and> (order_cols q @ cols \<noteq> [] \<longrightarrow>
        order_by_clause (order_by cols True q)
          = Some (''ORDER BY '' @ str_join '', '' (order_cols q @ cols) @ '' DESC'')
        \<and> order_by_clause (order_by cols False q)
          = Some (''ORDER BY '' @ str_join '', '' (order_cols q @ cols)))
   \<and> fst (build (run cs q)) =
        str_join '' ''
          (present [select_clause (run cs q), from_clause (run cs q), where_clause (run cs q),
                    group_by_clause (run cs q),
                    order_by_rendering (order_cols q @ order_args cs) (last_flag cs (desc q)),
                    limit_clause (run cs q)])"
proof -
  have "order_by_clause (run cs q)
          = order_by_rendering (order_cols q @ order_args cs) (last_flag cs (desc q))"
    by (simp add: order_by_clause_def order_cols_run desc_run)
  then show ?thesis
    using build_clauses [of "run cs q"]
    by (simp add: order_by_clause_def order_by_def order_by_rendering_def)
qed

lemma run_asc_then_desc:
  "run asc_then_desc init =
     \<lparr>select_cols = [], from_table = Some ''t'', where_conditions = [], group_cols = [],
      order_cols = [''a'', ''b''], limit_count = None, desc = True\<rparr>"
  by (simp add: asc_then_desc_def order_by_def from_q_def init_def)

lemma run_desc_then_asc:
  "run desc_then_asc init =
     \<lparr>select_cols = [], from_table = Some ''t'', where_conditions = [], group_cols = [],
      order_cols = [''a'', ''b''], limit_count = None, desc = False\<rparr>"
  by (simp add: desc_then_asc_def order_by_def from_q_def init_def)

theorem order_by_desc_last_call_wins_witness:
  "fst (build (run asc_then_desc init)) = ''SELECT * FROM t ORDER BY a, b DESC''
   \<and> fst (build (run desc_then_asc init)) = ''SELECT * FROM t ORDER BY a, b''
   \<and> order_by_clause (order_by [''b''] True (order_by [''a''] False init))
       = Some ''ORDER BY a, b DESC''"
proof -
  have "fst (build (run asc_then_desc init)) = ''SELECT * FROM t ORDER BY a, b DESC''"
    using order_by_desc_last_call_wins [of "[]" False init asc_then_desc]
    unfolding run_asc_then_desc
    by (simp add: asc_then_desc_def init_def select_clause_def from_clause_def where_clause_def
          group_by_clause_def order_by_rendering_def limit_clause_def)
  moreover have "fst (build (run desc_then_asc init)) = ''SELECT * FROM t ORDER BY a, b''"
    using order_by_desc_last_call_wins [of "[]" False init desc_then_asc]
    unfolding run_desc_then_asc
    by (simp add: desc_then_asc_def init_def select_clause_def from_clause_def where_clause_def
          group_by_clause_def order_by_rendering_def limit_clause_def)
  moreover have "order_by_clause (order_by [''b''] True (order_by [''a''] False init))
                   = Some ''ORDER BY a, b DESC''"
    using order_by_desc_last_call_wins [of "[''b'']" True "order_by [''a''] False init" "[]"]
    by (simp add: order_by_def init_def order_by_rendering_def)
  ultimately show ?thesis by blast
qed

lemma present_without_last:
  "present [a, b, c, d, e, None] = present [a, b, c, d, e]"
  using present_append [of "[a, b, c, d, e]" "[None]"] by simp

lemma limit_other_clauses:
  "select_clause (limit n q) = select_clause q" "from_clause (limit n q) = from_clause q"
  "where_clause (limit n q) = where_clause q" "group_by_clause (limit n q) = group_by_clause q"
  "order_by_clause (limit n q) = order_by_clause q"
  by (simp_all add: limit_def select_clause_def from_clause_def where_clause_def
        group_by_clause_def order_by_clause_def)

lemma unset_other_clauses:
  "select_clause (q\<lparr>limit_count := None\<rparr>) = select_clause q"
  "from_clause (q\<lparr>limit_count := None\<rparr>) = from_clause q"
  "where_clause (q\<lparr>limit_count := None\<rparr>) = where_clause q"
  "group_by_clause (q\<lparr>limit_count := None\<rparr>) = group_by_clause q"
  "order_by_clause (q\<lparr>limit_count := None\<rparr>) = order_by_clause q"
  by (simp_all add: select_clause_def from_clause_def where_clause_def
        group_by_clause_def order_by_clause_def)

text \<open>
  C9. A builder whose limit is unset or zero renders no LIMIT clause: the rendering is
  that of the other five clauses, and \<^verbatim>\<open>limit(0)\<close> renders as an unset limit does. The
  test is the truth value of the stored limit: any other \<open>n\<close> is rendered.
\<close>

theorem zero_or_unset_limit_renders_no_limit:
  "(limit_count q = None \<or> limit_count q = Some 0 \<longrightarrow>
      fst (build q) =
        str_join '' '' (present [select_clause q, from_clause q, where_clause q,
                                 group_by_clause q, order_by_clause q]))
   \<and> fst (build (limit 0 q)) = fst (build (q\<lparr>limit_count := None\<rparr>))
   \<and> (n \<noteq> 0 \<longrightarrow>
        fst (build (limit n q)) =
          str_join '' '' (present [select_clause q, from_clause q, where_clause q,
                                   group_by_clause q, order_by_clause q,
                                   Some (''LIMIT '' @ str_int n)]))"
proof (intro conjI impI)
  assume "limit_count q = None \<or> limit_count q = Some 0"
  then have "limit_clause q = None" by (auto simp: limit_clause_def)
  then show "fst (build q) =
        str_join '' '' (present [select_clause q, from_clause q, where_clause q,
                                 group_by_clause q, order_by_clause q])"
    by (simp only: build_clauses present_without_last)
next
  have "limit_clause (limit 0 q) = None" "limit_clause (q\<lparr>limit_count := None\<rparr>) = None"
    by (simp_all add: limit_clause_def limit_def)
  then show "fst (build (limit 0 q)) = fst (build (q\<lparr>limit_count := None\<rparr>))"
    by (simp only: build_clauses limit_other_clauses unset_other_clauses)
next
  assume "n \<noteq> 0"
  then have "limit_clause (limit n q) = Some (''LIMIT '' @ str_int n)"
    by (simp add: limit_clause_def limit_def)
  then show "fst (build (limit n q)) =
          str_join '' '' (present [select_clause q, from_clause q, where_clause q,
                                   group_by_clause q, order_by_clause q,
                                   Some (''LIMIT '' @ str_int n)])"
    by (simp only: build_clauses limit_other_clauses)
qed

lemma from_t_clauses:
  "select_clause from_t = Some ''SELECT *''" "from_clause from_t = Some ''FROM t''"
  "where_clause from_t = None" "group_by_clause from_t = None" "order_by_clause from_t = None"
  "limit_count from_t = None"
  by (simp_all add: from_t_def from_q_def init_def select_clause_def from_clause_def
        where_clause_def group_by_clause_def order_by_clause_def order_by_rendering_def)

lemma str_int_5: "str_int 5 = ''5''"
  by (simp add: str_int_def str_nat.simps digit_def)

theorem zero_or_unset_limit_renders_no_limit_witness:
  "fst (build from_t) = ''SELECT * FROM t''
   \<and> fst (build (limit 0 from_t)) = ''SELECT * FROM t''
   \<and> fst (build (limit 5 from_t)) = ''SELECT * FROM t LIMIT 5''"
  using zero_or_unset_limit_renders_no_limit [of from_t 5]
        zero_or_unset_limit_renders_no_limit [of "from_t\<lparr>limit_count := None\<rparr>" 5]
  by (simp add: from_t_clauses unset_other_clauses str_int_5)

text \<open>
  C10. \<^verbatim>\<open>build()\<close> only observes the builder: every field is as before the call, so a
  second \<^verbatim>\<open>build()\<close> returns the same string, and \<^verbatim>\<open>build()\<close> calls between mutator calls
  change neither the builder nor any later rendering.
\<close>

theorem build_leaves_builder_unchanged:
  "snd (build q) = q
   \<and> fst (build (snd (build q))) = fst (build q)
   \<and> run cs q = run (filter (\<lambda>c. c \<noteq> Build) cs) q
   \<and> fst (build (run cs q)) = fst (build (run (filter (\<lambda>c. c \<noteq> Build) cs) q))"
  by (simp add: build_state run_without_build)

theorem build_leaves_builder_unchanged_witness:
  "run builds_between init = run [Select [''a''], From ''t''] init
   \<and> fst (build (run builds_between init)) = fst (build (run [Select [''a''], From ''t''] init))"
  using build_leaves_builder_unchanged [of init builds_between]
  by (simp add: builds_between_def)

section \<open>Properties of the client\<close>

lemma query_requests:
  "requests (snd (query e self sql format w)) = requests w @ [query_request self sql format]"
  by (simp add: query_def Let_def split: sum.splits)

lemma query_urlopen_raises:
  "urlopen e (query_request self sql format) = Inl x \<Longrightarrow>
     fst (query e self sql format w) = Inl (query_except x)"
  by (simp add: query_def Let_def)

lemma query_loads_raises:
  "urlopen e (query_request self sql format) = Inr body \<Longrightarrow> json_loads e body = Inl x \<Longrightarrow>
     fst (query e self sql format w) = Inl (query_except x)"
  by (simp add: query_def Let_def)

text \<open>
  C4 as stated fails for failures that are not of class \<^verbatim>\<open>URLError\<close>. A server that
  answers with an empty body makes \<^verbatim>\<open>json.loads\<close> raise \<^verbatim>\<open>JSONDecodeError\<close>; a server that
  takes the request and sends no reply within the timeout makes \<^verbatim>\<open>urlopen\<close> raise
  \<^verbatim>\<open>TimeoutError\<close>; one that closes the connection makes it raise
  \<^verbatim>\<open>RemoteDisconnected\<close>. The handler for \<^verbatim>\<open>URLError\<close> takes none of them: \<^verbatim>\<open>query\<close>
  raises each as it is, not the \<^verbatim>\<open>Exception\<close> with the message
  \<^verbatim>\<open>ClickHouse query failed: ...\<close>.
\<close>

theorem query_unwrapped_failures_counterexample:
  "network empty_reply (query_request sample_client ''SELECT 1'' ''JSON'') = Replies []
   \<and> json_loads empty_reply [] = Inl (JSONDecodeError ''Expecting value: line 1 column 1 (char 0)'')
   \<and> fst (query empty_reply sample_client ''SELECT 1'' ''JSON'' empty_world)
       = Inl (JSONDecodeError ''Expecting value: line 1 column 1 (char 0)'')
   \<and> fst (query empty_reply sample_client ''SELECT 1'' ''JSON'' empty_world)
       \<noteq> Inl (Exception (''ClickHouse query failed: ''
                          @ ''Expecting value: line 1 column 1 (char 0)''))
   \<and> fst (query stalling sample_client ''SELECT 1'' ''JSON'' empty_world)
       = Inl (TimeoutError ''timed out'')
   \<and> fst (query stalling sample_client ''SELECT 1'' ''JSON'' empty_world)
       \<noteq> Inl (Exception (''ClickHouse query failed: '' @ ''timed out''))
   \<and> fst (query dropping sample_client ''SELECT 1'' ''JSON'' empty_world)
       = Inl (RemoteDisconnected ''Remote end closed connection without response'')"
  by (simp add: query_def Let_def urlopen_def empty_reply_def stalling_def dropping_def
        not_json_def query_except_def)

text \<open>
  C4, amended. Every failure that \<^verbatim>\<open>urllib\<close> raises as a \<^verbatim>\<open>URLError\<close> makes \<^verbatim>\<open>query\<close>
  raise the plain \<^verbatim>\<open>Exception\<close> whose message is \<^verbatim>\<open>ClickHouse query failed: \<close> followed
  by the text of the cause: when connecting or sending the request fails (the connection
  is refused, the connection attempt times out, or another \<^verbatim>\<open>OSError\<close>), and when the
  server answers with a 4xx or 5xx status. The kind of the error is the same for all of
  them.
\<close>

theorem query_wraps_send_failures_and_error_statuses:
  "(network e (query_request self sql format) = SendFails err \<longrightarrow>
      fst (query e self sql format w)
        = Inl (Exception (''ClickHouse query failed: <urlopen error '' @ err @ ''>'')))
   \<and> (network e (query_request self sql format) = ErrorStatus code msg \<longrightarrow>
      fst (query e self sql format w)
        = Inl (Exception (''ClickHouse query failed: HTTP Error '' @ str_int code
                          @ '': '' @ msg)))"
  by (simp add: query_urlopen_raises urlopen_def query_except_def)

theorem query_wraps_send_failures_and_error_statuses_witness:
  "fst (query refusing sample_client ''SELECT 1'' ''JSON'' empty_world)
     = Inl (Exception ''ClickHouse query failed: <urlopen error [Errno 111] Connection refused>'')
   \<and> fst (query unreachable sample_client ''SELECT 1'' ''JSON'' empty_world)
     = Inl (Exception ''ClickHouse query failed: <urlopen error timed out>'')
   \<and> fst (query failing_500 sample_client ''SELECT 1'' ''JSON'' empty_world)
     = Inl (Exception ''ClickHouse query failed: HTTP Error 500: Internal Server Error'')"
proof -
  have "fst (query refusing sample_client ''SELECT 1'' ''JSON'' empty_world)
     = Inl (Exception ''ClickHouse query failed: <urlopen error [Errno 111] Connection refused>'')"
    using query_wraps_send_failures_and_error_statuses
            [of refusing sample_client "''SELECT 1''" "''JSON''"
                "''[Errno 111] Connection refused''" empty_world]
    by (simp add: refusing_def)
  moreover have "fst (query unreachable sample_client ''SELECT 1'' ''JSON'' empty_world)
     = Inl (Exception ''ClickHouse query failed: <urlopen error timed out>'')"
    using query_wraps_send_failures_and_error_statuses
            [of unreachable sample_client "''SELECT 1''" "''JSON''" "''timed out''" empty_world]
    by (simp add: unreachable_def)
  moreover have "fst (query failing_500 sample_client ''SELECT 1'' ''JSON'' empty_world)
     = Inl (Exception ''ClickHouse query failed: HTTP Error 500: Internal Server Error'')"
    using query_wraps_send_failures_and_error_statuses
            [of failing_500 sample_client "''SELECT 1''" "''JSON''" _ empty_world 500
                "''Internal Server Error''"]
    by (simp add: failing_500_def str_int_def str_nat.simps digit_def)
  ultimately show ?thesis by blast
qed

lemma create_table_result:
  "fst (create_table e self name schema engine order_by_expr w)
     = (case fst (query e self (create_table_sql name schema engine order_by_expr) ''JSON'' w) of
          Inr results \<Rightarrow> Inr True
        | Inl x \<Rightarrow> Inr False)
   \<and> (\<forall>x. fst (create_table e self name schema engine order_by_expr w) \<noteq> Inl x)
   \<and> requests (snd (create_table e self name schema engine order_by_expr w))
       = requests w @ [query_request self (create_table_sql name schema engine order_by_expr)
                         ''JSON'']
   \<and> data (query_request self (create_table_sql name schema engine order_by_expr) ''JSON'')
       = newline @ ''        CREATE TABLE IF NOT EXISTS '' @ name @ '' ('' @
         newline @ ''            '' @ schema @
         newline @ ''        )'' @
         newline @ ''        ENGINE = '' @ engine @
         newline @ ''        ORDER BY '' @ order_by_expr @
         newline @ ''        ''"
proof -
  obtain r w' where q: "query e self (create_table_sql name schema engine order_by_expr) ''JSON'' w = (r, w')"
    by (cases "query e self (create_table_sql name schema engine order_by_expr) ''JSON'' w")
  have "requests w' = requests w @ [query_request self (create_table_sql name schema engine order_by_expr) ''JSON'']"
    using query_requests [of e self "create_table_sql name schema engine order_by_expr" "''JSON''" w] q
    by simp
  moreover have "data (query_request self sq ''JSON'') = sq" for sq
    by (simp add: query_request_def add_header_def Let_def)
  ultimately show ?thesis
    using q by (cases r) (simp_all add: create_table_def Let_def create_table_sql_def)
qed

text \<open>
  C5. \<^verbatim>\<open>create_table\<close> never raises and returns \<^verbatim>\<open>False\<close> when the query raises, but it
  does not return \<^verbatim>\<open>True\<close> for a statement that was executed. A server that has executed
  the \<^verbatim>\<open>CREATE TABLE IF NOT EXISTS\<close> statement answers with status 200 and an empty
  body; \<^verbatim>\<open>json.loads\<close> raises on that body inside \<^verbatim>\<open>query\<close>, and the handler of
  \<^verbatim>\<open>create_table\<close> returns \<^verbatim>\<open>False\<close>. \<^verbatim>\<open>insert\<close>, which reads the reply and does not
  decode it, returns \<^verbatim>\<open>True\<close> on the same reply.
\<close>

theorem create_table_false_for_executed_statement:
  "requests (snd (create_table empty_reply sample_client ''t'' ''id UInt64'' ''MergeTree()''
                    ''tuple()'' empty_world))
     = [query_request sample_client
          (create_table_sql ''t'' ''id UInt64'' ''MergeTree()'' ''tuple()'') ''JSON'']
   \<and> network empty_reply
         (query_request sample_client
            (create_table_sql ''t'' ''id UInt64'' ''MergeTree()'' ''tuple()'') ''JSON'')
       = Replies []
   \<and> fst (query empty_reply sample_client
            (create_table_sql ''t'' ''id UInt64'' ''MergeTree()'' ''tuple()'') ''JSON''
            empty_world)
       = Inl (JSONDecodeError ''Expecting value: line 1 column 1 (char 0)'')
   \<and> fst (create_table empty_reply sample_client ''t'' ''id UInt64'' ''MergeTree()''
            ''tuple()'' empty_world)
       = Inr False
   \<and> fst (insert empty_reply sample_client ''t'' [[(''id'', PInt 1)]] empty_world) = Inr True"
proof -
  have q: "fst (query empty_reply sample_client
                 (create_table_sql ''t'' ''id UInt64'' ''MergeTree()'' ''tuple()'') ''JSON''
                 empty_world)
           = Inl (JSONDecodeError ''Expecting value: line 1 column 1 (char 0)'')"
    by (simp add: query_def Let_def urlopen_def empty_reply_def not_json_def query_except_def)
  have i: "fst (insert empty_reply sample_client ''t'' [[(''id'', PInt 1)]] empty_world) = Inr True"
    by (simp add: insert_def Let_def urlopen_def empty_reply_def)
  have r0: "requests empty_world = []"
    by (simp add: empty_world_def)
  have n: "network empty_reply
             (query_request sample_client
                (create_table_sql ''t'' ''id UInt64'' ''MergeTree()'' ''tuple()'') ''JSON'')
           = Replies []"
    by (simp add: empty_reply_def)
  show ?thesis
    using create_table_result
            [of empty_reply sample_client "''t''" "''id UInt64''" "''MergeTree()''" "''tuple()''"
                empty_world]
    by (simp add: q i n r0)
qed

lemma capitalize_content_type: "capitalize ''Content-Type'' = ''Content-type''"
  by code_simp

lemma capitalize_query_header: "capitalize ''X-ClickHouse-Query'' = ''X-clickhouse-query''"
  by code_simp

lemma py_str_get_eq_tsv_value: "py_str (dict_get r c (PStr [])) = tsv_value r c"
  by (simp add: dict_get_def tsv_value_def py_str_def split: option.splits)

lemma insert_request_data:
  "data (insert_request self table row0 rws) = tsv_body (dict_keys row0) rws"
  by (simp add: insert_request_def add_header_def tsv_body_def Let_def py_str_get_eq_tsv_value
        comp_def)

lemma insert_request_header:
  "get_header (insert_request self table row0 rws) ''X-ClickHouse-Query''
     = Some (insert_statement table (dict_keys row0))"
  by (simp add: insert_request_def add_header_def get_header_def insert_statement_def Let_def
        capitalize_content_type capitalize_query_header)

lemma insert_requests:
  "requests (snd (insert e self table (row0 # rest) w))
     = requests w @ [insert_request self table row0 (row0 # rest)]"
  by (simp add: insert_def Let_def split: sum.splits)

lemma map_of_restrict_row:
  "c \<in> set columns \<Longrightarrow> map_of (restrict_row columns r) c = map_of r c"
  unfolding restrict_row_def by (induction r) auto

lemma tsv_body_restrict:
  "tsv_body columns (map (restrict_row columns) rws) = tsv_body columns rws"
proof -
  have "map (tsv_value (restrict_row columns r)) columns = map (tsv_value r) columns" for r
    by (rule map_cong) (simp_all add: tsv_value_def map_of_restrict_row)
  then show ?thesis by (simp only: tsv_body_def map_map comp_def)
qed

text \<open>
  C2. For every non-empty list of rows, \<^verbatim>\<open>insert(table, rows)\<close> hands \<^verbatim>\<open>urlopen\<close> one
  request. Its body has the keys of the first row, in insertion order, as columns: each
  value is \<^verbatim>\<open>str(value)\<close>, the empty string for a key the row lacks; the values of a row
  are joined by single tabs and the rows by single line feeds; keys that the first row
  does not have are dropped. Its \<^verbatim>\<open>X-ClickHouse-Query\<close> header is
  \<^verbatim>\<open>INSERT INTO {table} ({columns}) FORMAT TabSeparated\<close> with the same columns, joined by
  a comma and a space.
\<close>

theorem insert_builds_tsv_body_and_statement:
  assumes "rws = row0 # rest"
  shows "requests (snd (insert e self table rws w))
           = requests w @ [insert_request self table row0 rws]
         \<and> data (insert_request self table row0 rws) = tsv_body (dict_keys row0) rws
         \<and> tsv_body (dict_keys row0) rws
             = tsv_body (dict_keys row0) (map (restrict_row (dict_keys row0)) rws)
         \<and> get_header (insert_request self table row0 rws) ''X-ClickHouse-Query''
             = Some (insert_statement table (dict_keys row0))"
  using assms insert_requests [of e self table row0 rest w]
    insert_request_data [of self table row0 rws]
    insert_request_header [of self table row0 rws]
    tsv_body_restrict [of "dict_keys row0" rws]
  by simp

lemma people_body: "tsv_body [''id'', ''name''] people = ''1'' @ tab @ ''ann'' @ newline @ tab @ ''bob''"
  by (simp add: tsv_body_def people_def tsv_value_def py_str_def str_int_def str_nat.simps
        digit_def)

theorem insert_builds_tsv_body_and_statement_witness:
  "data (insert_request sample_client ''events'' [(''id'', PInt 1), (''name'', PStr ''ann'')] people)
     = ''1'' @ tab @ ''ann'' @ newline @ tab @ ''bob''
   \<and> get_header (insert_request sample_client ''events''
                   [(''id'', PInt 1), (''name'', PStr ''ann'')] people) ''X-ClickHouse-Query''
     = Some ''INSERT INTO events (id, name) FORMAT TabSeparated''"
  using insert_builds_tsv_body_and_statement
          [of people "[(''id'', PInt 1), (''name'', PStr ''ann'')]"
              "[[(''name'', PStr ''bob''), (''extra'', PBool True)]]"
              refusing sample_client "''events''" empty_world]
  by (simp add: people_body dict_keys_def insert_statement_def) (simp add: people_def)

text \<open>
  C7. For every table name, \<^verbatim>\<open>insert(table, [])\<close> returns \<^verbatim>\<open>True\<close> and leaves the world
  as it was: no request is handed to \<^verbatim>\<open>urlopen\<close> and no file changes.
\<close>

theorem insert_of_no_rows_sends_nothing:
  "insert e self table [] w = (Inr True, w)"
  by (simp add: insert_def)

lemma bit_length_le: "n < 2 ^ k \<Longrightarrow> bit_length n \<le> k"
proof (induction k arbitrary: n)
  case 0
  then show ?case by (subst bit_length.simps) simp
next
  case (Suc k)
  show ?case
  proof (cases "n \<le> 0")
    case True
    then show ?thesis by (subst bit_length.simps) simp
  next
    case False
    have "n div 2 < 2 ^ k" using Suc.prems by simp
    then have "bit_length (n div 2) \<le> k" by (rule Suc.IH)
    then show ?thesis using False by (subst bit_length.simps) simp
  qed
qed

lemma round_to_53_bits_small: "n < 2 ^ 53 \<Longrightarrow> round_to_53_bits n = n"
  using bit_length_le [of n 53] by (simp add: round_to_53_bits_def Let_def)

lemma int_truediv_MiB_exact:
  assumes "\<bar>i\<bar> < 2 ^ 53"
  shows "int_truediv_MiB i = Inr (NFloat (of_int i / 1048576))"
proof -
  have m: "round_to_53_bits \<bar>i\<bar> = \<bar>i\<bar>" using assms by (rule round_to_53_bits_small)
  have "\<bar>i\<bar> < (2::int) ^ 1044"
    using assms power_strict_increasing [of 53 1044 "2::int"] by linarith
  then have "\<not> (2::int) ^ 1044 \<le> \<bar>i\<bar>" by linarith
  moreover have "sgn i * \<bar>i\<bar> = i" by (simp add: mult_sgn_abs)
  ultimately show ?thesis by (simp add: int_truediv_MiB_def m Let_def)
qed

lemma table_stats_total: "\<exists>s. fst (table_stats e self name w) = Inr s"
  by (cases "table_stats_try e self name w"; cases "fst (table_stats_try e self name w)")
     (auto simp: table_stats_def)

lemma table_stats_query_raises:
  "fst (query e self (table_stats_sql name) ''JSON'' w) = Inl x \<Longrightarrow>
     fst (table_stats e self name w) = Inr zero_stats"
  by (cases "query e self (table_stats_sql name) ''JSON'' w")
     (simp add: table_stats_def table_stats_try_def Let_def)

lemma table_stats_empty:
  "fst (query e self (table_stats_sql name) ''JSON'' w) = Inr [] \<Longrightarrow>
     fst (table_stats e self name w) = Inr zero_stats"
  by (cases "query e self (table_stats_sql name) ''JSON'' w")
     (simp add: table_stats_def table_stats_try_def Let_def)

lemma table_stats_first_row:
  "fst (query e self (table_stats_sql name) ''JSON'' w) = Inr (row # rest) \<Longrightarrow>
     fst (table_stats e self name w) =
       (case truediv_MiB (dict_get row ''compressed_size'' (PInt 0)) of
          Inl x \<Rightarrow> Inr zero_stats
        | Inr c \<Rightarrow>
           (case truediv_MiB (dict_get row ''uncompressed_size'' (PInt 0)) of
              Inl x \<Rightarrow> Inr zero_stats
            | Inr u \<Rightarrow> Inr \<lparr>rows = dict_get row ''rows'' (PInt 0), compressed_size_mb = c,
                            uncompressed_size_mb = u\<rparr>))"
  by (cases "query e self (table_stats_sql name) ''JSON'' w")
     (simp add: table_stats_def table_stats_try_def Let_def split: sum.splits)

lemma truediv_MiB_not_a_number:
  "isl (truediv_MiB (PStr s))" "isl (truediv_MiB PNone)"
  by (simp_all add: truediv_MiB_def)

text \<open>
  C3 as stated fails for a non-empty result whose byte counts are not numbers. A server
  that writes 64-bit integers as quoted strings gives a first row with \<^verbatim>\<open>rows\<close> \<^verbatim>\<open>"5"\<close>;
  dividing the string \<^verbatim>\<open>"2097152"\<close> raises \<^verbatim>\<open>TypeError\<close>, which the handler turns into
  the zeroed record: \<^verbatim>\<open>rows\<close> is \<^verbatim>\<open>0\<close>, not the first row's value.
\<close>

theorem table_stats_quoted_counts_counterexample:
  "fst (query (replying quoted_body quoted_rows) sample_client (table_stats_sql ''events'')
          ''JSON'' empty_world)
     = Inr [[(''rows'', PStr ''5''), (''compressed_size'', PStr ''2097152''),
             (''uncompressed_size'', PStr ''4194304'')]]
   \<and> fst (table_stats (replying quoted_body quoted_rows) sample_client ''events'' empty_world)
     = Inr \<lparr>rows = PInt 0, compressed_size_mb = NInt 0, uncompressed_size_mb = NInt 0\<rparr>"
proof -
  have q: "fst (query (replying quoted_body quoted_rows) sample_client (table_stats_sql ''events'')
          ''JSON'' empty_world) = Inr quoted_rows"
    by (simp add: query_def Let_def urlopen_def replying_def dict_get_def)
  have "fst (table_stats (replying quoted_body quoted_rows) sample_client ''events'' empty_world)
          = Inr zero_stats"
    using q table_stats_first_row
            [of "replying quoted_body quoted_rows" sample_client "''events''" empty_world
                "[(''rows'', PStr ''5''), (''compressed_size'', PStr ''2097152''),
                  (''uncompressed_size'', PStr ''4194304'')]" "[]"]
    by (simp add: quoted_rows_def dict_get_def truediv_MiB_def)
  then show ?thesis using q by (simp add: quoted_rows_def zero_stats_def)
qed

text \<open>
  C3, amended. \<^verbatim>\<open>table_stats(name)\<close> never raises. It returns the zeroed record when the
  query raises, when the result is empty, and when a byte count of the first row cannot
  be divided (a string or \<^verbatim>\<open>None\<close>, or an integer too large for a float). On a non-empty
  result whose first row's byte counts can be divided it returns the first row's
  \<^verbatim>\<open>rows\<close> value with the two byte counts each divided by 1,048,576, a missing entry
  counting as 0; for an integer below \<open>2^53\<close> in magnitude the quotient is exact.
\<close>

theorem table_stats_zero_unless_numeric_first_row:
  assumes "fst (query e self (table_stats_sql name) ''JSON'' w) = r"
  shows "(\<exists>s. fst (table_stats e self name w) = Inr s)
       \<and> ((\<exists>x. r = Inl x) \<or> r = Inr [] \<longrightarrow> fst (table_stats e self name w) = Inr zero_stats)
       \<and> (\<forall>row rest. r = Inr (row # rest) \<longrightarrow>
            fst (table_stats e self name w) =
              (case truediv_MiB (dict_get row ''compressed_size'' (PInt 0)) of
                 Inl x \<Rightarrow> Inr zero_stats
               | Inr c \<Rightarrow>
                  (case truediv_MiB (dict_get row ''uncompressed_size'' (PInt 0)) of
                     Inl x \<Rightarrow> Inr zero_stats
                   | Inr u \<Rightarrow> Inr \<lparr>rows = dict_get row ''rows'' (PInt 0),
                                   compressed_size_mb = c, uncompressed_size_mb = u\<rparr>)))
       \<and> (\<forall>i. \<bar>i\<bar> < 2 ^ 53 \<longrightarrow> truediv_MiB (PInt i) = Inr (NFloat (of_int i / 1048576)))
       \<and> (\<forall>s. isl (truediv_MiB (PStr s))) \<and> isl (truediv_MiB PNone)"
proof (intro conjI allI impI)
  show "\<exists>s. fst (table_stats e self name w) = Inr s" by (rule table_stats_total)
next
  assume "(\<exists>x. r = Inl x) \<or> r = Inr []"
  then show "fst (table_stats e self name w) = Inr zero_stats"
    using assms table_stats_query_raises [of e self name w] table_stats_empty [of e self name w]
    by auto
next
  fix row rest assume "r = Inr (row # rest)"
  then show "fst (table_stats e self name w) =
              (case truediv_MiB (dict_get row ''compressed_size'' (PInt 0)) of
                 Inl x \<Rightarrow> Inr zero_stats
               | Inr c \<Rightarrow>
                  (case truediv_MiB (dict_get row ''uncompressed_size'' (PInt 0)) of
                     Inl x \<Rightarrow> Inr zero_stats
                   | Inr u \<Rightarrow> Inr \<lparr>rows = dict_get row ''rows'' (PInt 0),
                                   compressed_size_mb = c, uncompressed_size_mb = u\<rparr>))"
    using assms table_stats_first_row [of e self name w row rest] by simp
next
  fix i :: int assume "\<bar>i\<bar> < 2 ^ 53"
  then show "truediv_MiB (PInt i) = Inr (NFloat (of_int i / 1048576))"
    by (simp add: truediv_MiB_def int_truediv_MiB_exact)
next
  fix s show "isl (truediv_MiB (PStr s))" by (rule truediv_MiB_not_a_number)
next
  show "isl (truediv_MiB PNone)" by (rule truediv_MiB_not_a_number)
qed

theorem table_stats_zero_unless_numeric_first_row_witness:
  "fst (table_stats (replying numeric_body numeric_rows) sample_client ''events'' empty_world)
     = Inr \<lparr>rows = PInt 5, compressed_size_mb = NFloat 2, uncompressed_size_mb = NFloat 4\<rparr>
   \<and> fst (table_stats refusing sample_client ''events'' empty_world) = Inr zero_stats"
proof -
  have q: "fst (query (replying numeric_body numeric_rows) sample_client
                  (table_stats_sql ''events'') ''JSON'' empty_world) = Inr numeric_rows"
    by (simp add: query_def Let_def urlopen_def replying_def dict_get_def)
  have d: "truediv_MiB (PInt 2097152) = Inr (NFloat 2)" "truediv_MiB (PInt 4194304) = Inr (NFloat 4)"
    using table_stats_zero_unless_numeric_first_row [OF q] by simp_all
  have "fst (table_stats (replying numeric_body numeric_rows) sample_client ''events'' empty_world)
     = Inr \<lparr>rows = PInt 5, compressed_size_mb = NFloat 2, uncompressed_size_mb = NFloat 4\<rparr>"
    using table_stats_zero_unless_numeric_first_row [OF q]
    by (simp add: numeric_rows_def dict_get_def d)
  moreover have "fst (query refusing sample_client (table_stats_sql ''events'') ''JSON'' empty_world)
                   = Inl (query_except (URLError ''[Errno 111] Connection refused''))"
    by (simp add: query_def Let_def urlopen_def refusing_def)
  then have "fst (table_stats refusing sample_client ''events'' empty_world) = Inr zero_stats"
    using table_stats_zero_unless_numeric_first_row [of refusing sample_client "''events''" empty_world]
    by simp
  ultimately show ?thesis by simp
qed

lemma dict_to_list_within:
  "set (dict_keys r) \<subseteq> set columns \<Longrightarrow>
     dict_to_list wt columns r = Inr (map (\<lambda>key. dict_get r key (PStr [])) columns)"
  by (auto simp: dict_to_list_def Let_def filter_empty_conv)

lemma writerows_within:
  "\<forall>r \<in> set rs. set (dict_keys r) \<subseteq> set columns \<Longrightarrow>
     writerows wt columns rs written = (None, written @ concat (map (csv_record columns) rs))"
proof (induction rs arbitrary: written)
  case Nil
  then show ?case by simp
next
  case (Cons r rs)
  have d: "dict_to_list wt columns r = Inr (map (\<lambda>key. dict_get r key (PStr [])) columns)"
    using Cons.prems by (simp add: dict_to_list_within)
  have c: "csv_writerow (map (\<lambda>key. dict_get r key (PStr [])) columns) = csv_record columns r"
    by (simp add: csv_record_def)
  have "writerows wt columns rs (written @ csv_record columns r)
          = (None, (written @ csv_record columns r) @ concat (map (csv_record columns) rs))"
    using Cons.prems by (intro Cons.IH) simp
  then show ?case by (simp add: d c)
qed

lemma csv_record_fun:
  "csv_record columns = (\<lambda>r. csv_writerow (map (\<lambda>k. dict_get r k (PStr [])) columns))"
  by (rule ext) (simp add: csv_record_def)

lemma csv_file_Cons:
  "csv_file (row0 # rest)
     = csv_writerow (map PStr (dict_keys row0))
       @ concat (map (\<lambda>r. csv_writerow (map (\<lambda>k. dict_get r k (PStr [])) (dict_keys row0)))
                  (row0 # rest))"
  by (simp add: csv_file_def csv_record_fun)

lemma keys_within_first_Cons:
  "keys_within_first (row0 # rest) \<Longrightarrow>
     \<forall>r \<in> set (row0 # rest). set (dict_keys r) \<subseteq> set (dict_keys row0)"
  by (auto simp: keys_within_first_def first_keys_def list_all_iff)

lemma export_csv_try_empty:
  assumes "fst (query e self sql ''JSON'' w) = Inr []" "open_w e output_path = None"
  shows "fst (export_csv_try e self sql output_path w) = Inr True"
    and "files (snd (export_csv_try e self sql output_path w)) output_path = Some []"
  using assms
  by (cases "query e self sql ''JSON'' w"; simp add: export_csv_try_def)+

lemma export_csv_try_rows:
  assumes "fst (query e self sql ''JSON'' w) = Inr (row0 # rest)" "open_w e output_path = None"
    "keys_within_first (row0 # rest)"
  shows "fst (export_csv_try e self sql output_path w) = Inr True"
    and "files (snd (export_csv_try e self sql output_path w)) output_path
           = Some (csv_file (row0 # rest))"
proof -
  have wr: "writerows (wrong_fields_text e) (dict_keys row0) (row0 # rest)
              (writeheader (dict_keys row0))
          = (None, csv_file (row0 # rest))"
    using writerows_within [OF keys_within_first_Cons [OF assms(3)]]
    by (simp add: csv_file_def writeheader_def)
  show "fst (export_csv_try e self sql output_path w) = Inr True"
    using assms(1,2) wr
    by (cases "query e self sql ''JSON'' w") (simp add: export_csv_try_def Let_def)
  show "files (snd (export_csv_try e self sql output_path w)) output_path
           = Some (csv_file (row0 # rest))"
    using assms(1,2) wr
    by (cases "query e self sql ''JSON'' w") (simp add: export_csv_try_def Let_def)
qed

lemma export_csv_of_try:
  "fst (export_csv_try e self sql output_path w) = Inr b \<Longrightarrow>
     fst (export_csv e self sql output_path w) = Inr b
     \<and> snd (export_csv e self sql output_path w) = snd (export_csv_try e self sql output_path w)"
  by (cases "export_csv_try e self sql output_path w") (simp add: export_csv_def)

text \<open>
  C6 as stated fails for a non-empty result in which a later row has a key the first
  row lacks: the \<^verbatim>\<open>DictWriter\<close> raises \<^verbatim>\<open>ValueError\<close> at that row, \<^verbatim>\<open>export_csv\<close> raises
  \<^verbatim>\<open>Failed to export CSV: ...\<close> instead of returning \<^verbatim>\<open>True\<close>, and the file holds the
  header and the records before that row only.
\<close>

theorem export_csv_ragged_rows_counterexample:
  "fst (query (replying ragged_body ragged_rows) sample_client ''SELECT * FROM t'' ''JSON''
          empty_world)
     = Inr [[(''a'', PInt 1)], [(''a'', PInt 2), (''b'', PInt 3)]]
   \<and> fst (export_csv (replying ragged_body ragged_rows) sample_client ''SELECT * FROM t''
            ''out.csv'' empty_world)
     = Inl (Exception (''Failed to export CSV: dict contains fields not in fieldnames: ''
                       @ [CHR 0x27] @ ''b'' @ [CHR 0x27]))
   \<and> files (snd (export_csv (replying ragged_body ragged_rows) sample_client ''SELECT * FROM t''
                   ''out.csv'' empty_world)) ''out.csv''
     = Some (''a'' @ crlf @ ''1'' @ crlf)"
proof -
  have q: "query (replying ragged_body ragged_rows) sample_client ''SELECT * FROM t'' ''JSON''
             empty_world
           = (Inr ragged_rows,
              empty_world\<lparr>requests := [query_request sample_client ''SELECT * FROM t'' ''JSON'']\<rparr>)"
    by (simp add: query_def Let_def urlopen_def replying_def dict_get_def empty_world_def)
  have o: "open_w (replying ragged_body ragged_rows) ''out.csv'' = None"
    by (simp add: replying_def)
  have wt: "wrong_fields_text (replying b r) = quoted_keys" for b r
    by (simp add: replying_def)
  have w: "writerows quoted_keys [''a''] ragged_rows (writeheader [''a''])
             = (Some (ValueError (''dict contains fields not in fieldnames: ''
                                   @ [CHR 0x27] @ ''b'' @ [CHR 0x27])),
                ''a'' @ crlf @ ''1'' @ crlf)"
    by (simp add: ragged_rows_def writeheader_def csv_writerow_def csv_text_def csv_field_def
          csv_special_def dquote_def dict_to_list_def quoted_keys_def dict_keys_def dict_get_def
          py_str_def str_int_def str_nat.simps digit_def Let_def)
  have t: "export_csv_try (replying ragged_body ragged_rows) sample_client ''SELECT * FROM t''
             ''out.csv'' empty_world
           = (Inl (ValueError (''dict contains fields not in fieldnames: ''
                                   @ [CHR 0x27] @ ''b'' @ [CHR 0x27])),
              empty_world\<lparr>requests := [query_request sample_client ''SELECT * FROM t'' ''JSON''],
                          files := (files empty_world)(''out.csv'' \<mapsto> ''a'' @ crlf @ ''1'' @ crlf)\<rparr>)"
    unfolding export_csv_try_def q
    using o w by (simp add: wt ragged_rows_def dict_keys_def empty_world_def Let_def)
  show ?thesis
    unfolding export_csv_def t using q by (simp add: ragged_rows_def)
qed

text \<open>
  C6, amended. When the query returns and the output file can be opened,
  \<^verbatim>\<open>export_csv(sql, output_path)\<close> on an empty result writes a file of zero bytes and
  returns \<^verbatim>\<open>True\<close>; on a non-empty result in which no row has a key outside the first
  row's keys, it writes the header record of the first row's keys in order, followed by
  one CSV record per result row, and returns \<^verbatim>\<open>True\<close>.
\<close>

theorem export_csv_writes_header_and_records:
  assumes "fst (query e self sql ''JSON'' w) = Inr results"
    and "open_w e output_path = None"
    and "keys_within_first results"
  shows "fst (export_csv e self sql output_path w) = Inr True
       \<and> files (snd (export_csv e self sql output_path w)) output_path = Some (csv_file results)
       \<and> csv_file [] = []
       \<and> (\<forall>row0 rest. results = row0 # rest \<longrightarrow>
            csv_file results
              = csv_writerow (map PStr (dict_keys row0))
                @ concat (map (\<lambda>r. csv_writerow (map (\<lambda>k. dict_get r k (PStr [])) (dict_keys row0)))
                           results))"
proof (cases results)
  case Nil
  then show ?thesis
    using assms export_csv_try_empty [of e self sql w output_path]
      export_csv_of_try [of e self sql output_path w True]
    by (simp add: csv_file_def)
next
  case (Cons row0 rest)
  then show ?thesis
    using assms export_csv_try_rows [of e self sql w row0 rest output_path]
      export_csv_of_try [of e self sql output_path w True] csv_file_Cons [of row0 rest]
    by (simp add: csv_file_def)
qed

theorem export_csv_writes_header_and_records_witness:
  "fst (export_csv (replying uniform_body uniform_rows) sample_client ''SELECT * FROM t''
          ''out.csv'' empty_world) = Inr True
   \<and> files (snd (export_csv (replying uniform_body uniform_rows) sample_client ''SELECT * FROM t''
                   ''out.csv'' empty_world)) ''out.csv''
     = Some (''a,b'' @ crlf @ ''1,'' @ [dquote] @ ''x,y'' @ [dquote] @ crlf @ '','' @ crlf)"
proof -
  have q: "fst (query (replying uniform_body uniform_rows) sample_client ''SELECT * FROM t''
                  ''JSON'' empty_world) = Inr uniform_rows"
    by (simp add: query_def Let_def urlopen_def replying_def dict_get_def)
  have o: "open_w (replying uniform_body uniform_rows) ''out.csv'' = None"
    by (simp add: replying_def)
  have k: "keys_within_first uniform_rows"
    by (simp add: keys_within_first_def first_keys_def uniform_rows_def dict_keys_def)
  have f: "csv_file uniform_rows
             = ''a,b'' @ crlf @ ''1,'' @ [dquote] @ ''x,y'' @ [dquote] @ crlf @ '','' @ crlf"
    by (simp add: csv_file_def csv_record_def uniform_rows_def csv_writerow_def csv_text_def
          csv_field_def csv_special_def dquote_def dict_keys_def dict_get_def py_str_def
          str_int_def str_nat.simps digit_def Let_def)
  show ?thesis
    using export_csv_writes_header_and_records [OF q o k] by (simp add: f)
qed

end
